theory Spec2Isabelle
  imports Complex_Main "HOL-Library.Sublist"
begin

section \<open>Strings and paths\<close>

text \<open>
  JavaScript strings are modelled as \<^typ>\<open>string\<close>. The operations below are the
  ones the editor's sources call on them.
\<close>

text \<open>
  \<^verbatim>\<open>s.replace(pattern, replacement)\<close> with a string pattern: the first occurrence of
  the pattern, wherever it stands, is replaced; a string without the pattern is returned as
  it is. The sources only call it with the replacement \<^verbatim>\<open>""\<close>, which holds none of the
  \<^verbatim>\<open>$\<close> patterns of JavaScript.
\<close>

fun replace :: "string \<Rightarrow> string \<Rightarrow> string \<Rightarrow> string" where
  "replace [] pat rep = (if pat = [] then rep else [])"
| "replace (c # cs) pat rep =
     (if prefix pat (c # cs) then rep @ drop (length pat) (c # cs)
      else c # replace cs pat rep)"

text \<open>
  \<^verbatim>\<open>s.lastIndexOf(pattern)\<close>: the highest index at which the pattern occurs, or -1.
\<close>

definition lastIndexOf :: "string \<Rightarrow> string \<Rightarrow> int" where
  "lastIndexOf s pat =
     (case filter (\<lambda>i. prefix pat (drop i s)) (rev [0 ..< Suc (length s)]) of
        [] \<Rightarrow> -1
      | i # _ \<Rightarrow> int i)"

text \<open>
  Node's \<^verbatim>\<open>path\<close> module is a library, not code of the editor: the handlers take it as a
  parameter, so that every theorem below holds for the POSIX and for the Windows flavour
  alike.
\<close>

record path_module =
  join :: "string list \<Rightarrow> string"
  normalize :: "string \<Rightarrow> string"
  extname :: "string \<Rightarrow> string"

text \<open>
  The POSIX flavour of the module, as Node implements it, to run the handlers on
  concrete paths. A path is split at every \<^verbatim>\<open>/\<close>; normalising drops empty and
  \<^verbatim>\<open>.\<close> segments and resolves \<^verbatim>\<open>..\<close> against the segment before it.
\<close>

fun split_path :: "string \<Rightarrow> string list" where
  "split_path [] = [[]]"
| "split_path (c # cs) =
     (if c = CHR ''/'' then [] # split_path cs
      else (case split_path cs of
              [] \<Rightarrow> [[c]]
            | s # ss \<Rightarrow> (c # s) # ss))"

fun join_segments :: "string list \<Rightarrow> string" where
  "join_segments [] = []"
| "join_segments [s] = s"
| "join_segments (s # t # ss) = s @ ''/'' @ join_segments (t # ss)"

fun normalizeString :: "bool \<Rightarrow> string list \<Rightarrow> string list \<Rightarrow> string list" where
  "normalizeString allowAboveRoot res [] = rev res"
| "normalizeString allowAboveRoot res (s # ss) =
     (if s = [] \<or> s = ''.'' then normalizeString allowAboveRoot res ss
      else if s = ''..'' then
        (case res of
           [] \<Rightarrow> normalizeString allowAboveRoot (if allowAboveRoot then [''..''] else []) ss
         | r # rs \<Rightarrow>
             if r \<noteq> ''..'' then normalizeString allowAboveRoot rs ss
             else normalizeString allowAboveRoot (if allowAboveRoot then ''..'' # res else res) ss)
      else normalizeString allowAboveRoot (s # res) ss)"

definition posix_normalize :: "string \<Rightarrow> string" where
  "posix_normalize path =
     (if path = [] then ''.''
      else
        let isAbsolute = (hd path = CHR ''/'');
            trailingSeparator = (last path = CHR ''/'');
            p = join_segments (normalizeString (\<not> isAbsolute) [] (split_path path))
        in if p = [] then
             (if isAbsolute then ''/'' else if trailingSeparator then ''./'' else ''.'')
           else (if isAbsolute then ''/'' else []) @ p @
                (if trailingSeparator then ''/'' else []))"

definition posix_join :: "string list \<Rightarrow> string" where
  "posix_join args =
     (let joined = join_segments (filter (\<lambda>a. a \<noteq> []) args)
      in if joined = [] then ''.'' else posix_normalize joined)"

text \<open>
  \<^verbatim>\<open>extname\<close>: the text from the last dot of the last segment of the path (trailing
  separators apart) on; empty when that segment has no dot, starts with its only dot or
  is \<^verbatim>\<open>..\<close>.
\<close>

definition posix_extname :: "string \<Rightarrow> string" where
  "posix_extname path =
     (let trimmed = rev (dropWhile (\<lambda>c. c = CHR ''/'') (rev path));
          base = rev (takeWhile (\<lambda>c. c \<noteq> CHR ''/'') (rev trimmed));
          ext = rev (takeWhile (\<lambda>c. c \<noteq> CHR ''.'') (rev base));
          pre = take (length base - length ext - 1) base
      in if CHR ''.'' \<notin> set base \<or> pre = [] \<or> base = ''..'' then []
         else CHR ''.'' # ext)"

definition posix :: path_module where
  "posix = \<lparr> join = posix_join, normalize = posix_normalize, extname = posix_extname \<rparr>"

section \<open>The move handler of video assets\<close>

text \<open>
  \<^verbatim>\<open>components/assets-browser/files/move/video.ts\<close>. The textures of a scene are objects
  the scene's array refers to: the store maps a reference to the object, the array holds
  references, and a texture that the array names twice is one object.
\<close>

datatype error = TypeError | FileError

datatype texture_class = VideoTexture | Texture

record texture =
  tclass :: texture_class
  name :: string

type_synonym ref = nat

record scene =
  textures :: "ref list"

text \<open>
  The editor as the handler sees it: \<^verbatim>\<open>editor.assetsBrowser.assetsDirectory\<close>,
  \<^verbatim>\<open>editor.scene\<close> (null while no scene is loaded) and the texture objects.
\<close>

record editor =
  assetsDirectory :: string
  scene :: "scene option"
  store :: "ref \<Rightarrow> texture"

text \<open>
  \<^verbatim>\<open>isFileUsed(path)\<close>. The relative path is computed first; \<^verbatim>\<open>editor.scene!.textures\<close>
  on a null scene throws a TypeError, which rejects the promise. The editor is returned
  as the call leaves it.
\<close>

definition isFileUsed :: "path_module \<Rightarrow> editor \<Rightarrow> string \<Rightarrow> error + (bool \<times> editor)" where
  "isFileUsed P ed path =
     (let relativePath = replace path (join P [assetsDirectory ed, ''/'']) []
      in case scene ed of
           None \<Rightarrow> Inl TypeError
         | Some sc \<Rightarrow>
             Inr ((case find (\<lambda>t. tclass (store ed t) = VideoTexture \<and>
                                   name (store ed t) = relativePath) (textures sc) of
                     Some t \<Rightarrow> True
                   | None \<Rightarrow> False), ed))"

text \<open>The body of the \<^verbatim>\<open>forEach\<close> of \<^verbatim>\<open>moveFile\<close>, on one texture.\<close>

definition moveTexture :: "path_module \<Rightarrow> string \<Rightarrow> string \<Rightarrow> string \<Rightarrow>
    (ref \<Rightarrow> texture) \<Rightarrow> ref \<Rightarrow> (ref \<Rightarrow> texture)" where
  "moveTexture P dir from to h tex =
     (let path = join P [dir, name (h tex)]
      in if path = from
         then h(tex := (h tex)\<lparr>name := replace to (join P [dir, ''/'']) []\<rparr>)
         else h)"

definition moveFile :: "path_module \<Rightarrow> editor \<Rightarrow> string \<Rightarrow> string \<Rightarrow> error + editor" where
  "moveFile P ed from to =
     (case scene ed of
        None \<Rightarrow> Inl TypeError
      | Some sc \<Rightarrow>
          let textures = filter (\<lambda>t. tclass (store ed t) = VideoTexture) (textures sc)
          in Inr (ed\<lparr>store := foldl (moveTexture P (assetsDirectory ed) from to)
                                    (store ed) textures\<rparr>))"

text \<open>
  A project to run the handler on: its assets live in \<^verbatim>\<open>/proj/assets\<close>; the scene holds
  two video textures and a plain texture that bears a video's name, and names the first
  video twice.
\<close>

definition demo_store :: "ref \<Rightarrow> texture" where
  "demo_store =
     (\<lambda>r. \<lparr>tclass = Texture, name = []\<rparr>)
       (0 := \<lparr>tclass = VideoTexture, name = ''videos/intro.mp4''\<rparr>,
        1 := \<lparr>tclass = Texture, name = ''videos/intro.mp4''\<rparr>,
        2 := \<lparr>tclass = VideoTexture, name = ''videos/outro.webm''\<rparr>)"

definition demo_editor :: editor where
  "demo_editor =
     \<lparr>assetsDirectory = ''/proj/assets'',
      scene = Some \<lparr>textures = [0, 1, 2, 0]\<rparr>,
      store = demo_store\<rparr>"

definition no_scene_editor :: editor where
  "no_scene_editor = demo_editor\<lparr>scene := None\<rparr>"

section \<open>Floating labels\<close>

text \<open>
  \<^verbatim>\<open>editor/tools/default-scene.ts\<close>, \<open>CreateLabel\<close>. The controls of the GUI library
  are objects: a store maps a reference to the control, \<^verbatim>\<open>new\<close> takes the next unused
  reference, an assignment to a property of a control is recorded under the property's
  name. Of the library, \<^verbatim>\<open>addControl\<close> puts a control among the children of the gui's
  root (or of a container) unless it is there already, and \<^verbatim>\<open>linkWithMesh\<close> links a
  control that stands at the root level and refuses any other.
\<close>

type_synonym mesh = nat

datatype control_class = Rectangle | TextBlock | Line

datatype property =
    Str string
  | Num real
  | Nums "real list"
  | Ctl ref
  | VERTICAL_ALIGNMENT_TOP
  | HORIZONTAL_ALIGNMENT_RIGHT

record control =
  cclass :: control_class
  cname :: "string option"
  props :: "string \<rightharpoonup> property"
  children :: "ref list"
  linkedMesh :: "mesh option"

record gui =
  objects :: "ref \<rightharpoonup> control"
  rootControls :: "ref list"
  nextRef :: ref

definition new :: "control_class \<Rightarrow> string option \<Rightarrow> gui \<Rightarrow> ref \<times> gui" where
  "new c n g =
     (nextRef g,
      g\<lparr>objects := (objects g)(nextRef g \<mapsto>
            \<lparr>cclass = c, cname = n, props = Map.empty, children = [], linkedMesh = None\<rparr>),
        nextRef := Suc (nextRef g)\<rparr>)"

definition modify :: "ref \<Rightarrow> (control \<Rightarrow> control) \<Rightarrow> gui \<Rightarrow> gui" where
  "modify r f g = g\<lparr>objects := (objects g)(r := map_option f (objects g r))\<rparr>"

definition assign :: "ref \<Rightarrow> string \<Rightarrow> property \<Rightarrow> gui \<Rightarrow> gui" where
  "assign r key v g = modify r (\<lambda>c. c\<lparr>props := (props c)(key \<mapsto> v)\<rparr>) g"

definition addControl :: "ref \<Rightarrow> gui \<Rightarrow> gui" where
  "addControl r g =
     (if r \<in> set (rootControls g) then g else g\<lparr>rootControls := rootControls g @ [r]\<rparr>)"

definition addChild :: "ref \<Rightarrow> ref \<Rightarrow> gui \<Rightarrow> gui" where
  "addChild p r g =
     modify p (\<lambda>c. if r \<in> set (children c) then c else c\<lparr>children := children c @ [r]\<rparr>) g"

definition linkWithMesh :: "ref \<Rightarrow> mesh \<Rightarrow> gui \<Rightarrow> gui" where
  "linkWithMesh r m g =
     (if r \<in> set (rootControls g) then modify r (\<lambda>c. c\<lparr>linkedMesh := Some m\<rparr>) g else g)"

definition CreateLabel ::
  "gui \<Rightarrow> mesh \<Rightarrow> string \<Rightarrow> bool \<Rightarrow> string \<Rightarrow> string \<Rightarrow> ref \<times> gui" where
  "CreateLabel gui mesh str lines width height =
     (let (label, g) = new Rectangle (Some str) gui;
          g = assign label ''background'' (Str ''black'') g;
          g = assign label ''height'' (Str height) g;
          g = assign label ''alpha'' (Num 0.5) g;
          g = assign label ''width'' (Str width) g;
          g = assign label ''cornerRadius'' (Num 20) g;
          g = assign label ''thickness'' (Num 1) g;
          g = assign label ''linkOffsetY'' (Num 30) g;
          g = assign label ''top'' (Str ''0%'') g;
          g = assign label ''zIndex'' (Num 5) g;
          g = assign label ''verticalAlignment'' VERTICAL_ALIGNMENT_TOP g;
          g = assign label ''horizontalAlignment'' HORIZONTAL_ALIGNMENT_RIGHT g;
          g = addControl label g;
          (text, g) = new TextBlock None g;
          g = assign text ''text'' (Str str) g;
          g = assign text ''color'' (Str ''white'') g;
          g = addChild label text g
      in if \<not> lines then (label, linkWithMesh label mesh g)
         else
           let (line, g) = new Line None g;
               g = assign line ''alpha'' (Num 0.5) g;
               g = assign line ''lineWidth'' (Num 5) g;
               g = assign line ''dash'' (Nums [5, 10]) g;
               g = addControl line g;
               g = linkWithMesh line mesh g;
               g = assign line ''connectedControl'' (Ctl label) g
           in (label, g))"

text \<open>The references \<^verbatim>\<open>new\<close> will hand out are not in use at the root of the gui.\<close>

definition fresh_from :: "gui \<Rightarrow> bool" where
  "fresh_from g = (list_all (\<lambda>r. r < nextRef g) (rootControls g))"

definition empty_gui :: gui where
  "empty_gui = \<lparr>objects = Map.empty, rootControls = [], nextRef = 0\<rparr>"

section \<open>The script inspector\<close>

text \<open>
  \<^verbatim>\<open>inspectors/script-inspector.tsx\<close>. Values that cross from the scripts of the user
  to the inspector are JavaScript values.
\<close>

datatype jsvalue =
    JUndefined
  | JNull
  | JNumber real
  | JString string
  | JBoolean bool
  | JObject "(string \<times> jsvalue) list"

text \<open>
  \<^verbatim>\<open>IExportedInspectorValue\<close>, as the inspector reads it: the key of the property, its
  optional display name, its default value (undefined when the script declares none) and
  the name of its type.
\<close>

record exported =
  propertyKey :: string
  ename :: "string option"
  defaultValue :: jsvalue
  etype :: string

subsection \<open>Refreshing the decorators\<close>

text \<open>
  The TypeScript compiler and the file system are the environment of
  \<^verbatim>\<open>_refreshDecorators\<close>: \<open>files\<close> gives the content \<^verbatim>\<open>readFile\<close> resolves with (a
  file that cannot be read rejects the promise), \<open>transpile\<close> is the compiler's function.
  What the method does to the world is the list of effects it returns.
\<close>

datatype ModuleKind = ModuleKind_None | CommonJS | AMD | UMD | System | ES2015_Module | ESNext_Module

datatype ScriptTarget = ES3 | ES5 | ES2015 | ESNext

record compilerOptions =
  opt_module :: ModuleKind
  opt_target :: ScriptTarget
  experimentalDecorators :: bool

record environment =
  appPath :: string
  files :: "string \<rightharpoonup> string"
  transpile :: "string \<Rightarrow> compilerOptions \<Rightarrow> string"

datatype effect =
    ReadFile string string
  | ExecuteCode string string
  | Close ref
  | ForceUpdate
  | SetState bool "exported list option"
  | Call_refreshDecorators
  | PathExists string
  | Wait nat
  | Watch string ref
  | GetInspectorValues string

subsection \<open>Refreshing the visible properties\<close>

text \<open>
  \<^verbatim>\<open>_updateScriptVisibleProperties\<close> is an async method: it runs until an
  \<^verbatim>\<open>await\<close>, gives the control back, and goes on when the awaited promise settles.
  Between two of its steps anything else of the inspector may run, another call of the
  method included: \<^verbatim>\<open>refreshAvailableScripts\<close>, the scripts list and the file watcher
  all call it without awaiting it. A call in flight is a task that stands at one of the
  \<^verbatim>\<open>await\<close>s of the method, with the local \<^verbatim>\<open>jsPath\<close> it has computed.
\<close>

datatype pc =
    AwaitDecorators
  | AwaitPathExists string
  | AwaitWait string
  | AwaitInspectorValues string
  | Returned
  | Threw error

text \<open>How an awaited promise settles.\<close>

datatype resumed =
    Resolved
  | ResolvedBool bool
  | ResolvedValues "exported list option"
  | Rejected error

text \<open>
  The inspector and what it acts on: the fields of the component (\<^verbatim>\<open>isMounted\<close>,
  \<^verbatim>\<open>_scriptWatcher\<close>, the name of the script in the metadata of the selected object, the
  React state), \<^verbatim>\<open>WorkSpace.DirPath\<close>, the file watchers that are open (handle and
  watched path), the effects so far in their order, and the calls in flight.
\<close>

record inspector =
  isMounted :: bool
  scriptWatcher :: "ref option"
  scriptName :: string
  refresing :: bool
  inspectorValues :: "exported list"
  DirPath :: "string option"
  openWatchers :: "(ref \<times> string) list"
  nextWatcher :: ref
  effects :: "effect list"
  tasks :: "pc list"

definition refreshDecorators ::
  "path_module \<Rightarrow> environment \<Rightarrow> inspector \<Rightarrow> (error + unit) \<times> effect list" where
  "refreshDecorators P env c =
     (let file = join P [appPath env, ''assets'', ''scripts'', ''decorators.ts'']
      in case files env file of
           None \<Rightarrow> (Inl FileError, [ReadFile file ''utf-8''])
         | Some decorators \<Rightarrow>
             let transpiledScript = transpile env decorators
                   \<lparr>opt_module = ModuleKind_None, opt_target = ES5,
                    experimentalDecorators = True\<rparr>
             in (Inr (), [ReadFile file ''utf-8'',
                          ExecuteCode transpiledScript ''__editor__decorators__.js'']))"

definition emit :: "effect \<Rightarrow> inspector \<Rightarrow> inspector" where
  "emit e c = c\<lparr>effects := effects c @ [e]\<rparr>"

text \<open>\<^verbatim>\<open>FSWatcher.close()\<close> and \<^verbatim>\<open>watch(path, ...)\<close> of the file system.\<close>

definition close :: "ref \<Rightarrow> inspector \<Rightarrow> inspector" where
  "close w c = emit (Close w) (c\<lparr>openWatchers := filter (\<lambda>(w', p). w' \<noteq> w) (openWatchers c)\<rparr>)"

definition watch :: "string \<Rightarrow> inspector \<Rightarrow> ref \<times> inspector" where
  "watch path c =
     (nextWatcher c,
      emit (Watch path (nextWatcher c))
        (c\<lparr>openWatchers := openWatchers c @ [(nextWatcher c, path)],
           nextWatcher := Suc (nextWatcher c)\<rparr>))"

text \<open>
  Line 295: the call of \<^verbatim>\<open>SandboxMain.GetInspectorValues(jsPath)\<close>, awaited.
\<close>

definition callSandbox :: "string \<Rightarrow> inspector \<Rightarrow> inspector \<times> pc" where
  "callSandbox jsPath c = (emit (GetInspectorValues jsPath) c, AwaitInspectorValues jsPath)"

text \<open>
  Lines 286 to 295, after the loop: an unmounted inspector returns; a mounted one installs
  the watcher, keeps it in \<^verbatim>\<open>_scriptWatcher\<close> and asks the sandbox.
\<close>

definition afterLoop :: "string \<Rightarrow> inspector \<Rightarrow> inspector \<times> pc" where
  "afterLoop jsPath c =
     (if \<not> isMounted c then (c, Returned)
      else let (w, c) = watch jsPath c;
               c = c\<lparr>scriptWatcher := Some w\<rparr>
           in callSandbox jsPath c)"

text \<open>
  Line 282, the test of the loop up to its \<^verbatim>\<open>await\<close>: \<^verbatim>\<open>isMounted\<close> is read first, and
  only a mounted inspector calls \<^verbatim>\<open>pathExists\<close>.
\<close>

definition loopCondition :: "string \<Rightarrow> inspector \<Rightarrow> inspector \<times> pc" where
  "loopCondition jsPath c =
     (if isMounted c then (emit (PathExists jsPath) c, AwaitPathExists jsPath)
      else afterLoop jsPath c)"

text \<open>
  Lines 272 to 282: the name of the script is read after the decorators are refreshed. A
  null \<^verbatim>\<open>WorkSpace.DirPath\<close> makes \<^verbatim>\<open>join\<close> throw. The guard of line 281 lets the call
  skip the loop and the watcher when a watcher is installed.
\<close>

definition afterDecorators :: "path_module \<Rightarrow> inspector \<Rightarrow> inspector \<times> pc" where
  "afterDecorators P c =
     (let name = scriptName c;
          extension = extname P name;
          extensionIndex = lastIndexOf name extension
      in if extensionIndex = -1 then (c, Returned)
         else
           let jsName = normalize P (take (nat extensionIndex) name @ ''.js'')
           in case DirPath c of
                None \<Rightarrow> (c, Threw TypeError)
              | Some dir \<Rightarrow>
                  let jsPath = join P [dir, ''build'', jsName]
                  in if scriptWatcher c = None then loopCondition jsPath c
                     else callSandbox jsPath c)"

text \<open>
  Lines 260 to 270, the call up to its first \<^verbatim>\<open>await\<close>: the watcher is closed and
  forgotten, and a script named \<^verbatim>\<open>None\<close> ends the call with a forced update.
\<close>

definition updateScriptVisibleProperties :: "inspector \<Rightarrow> inspector \<times> pc" where
  "updateScriptVisibleProperties c =
     (let c = (case scriptWatcher c of None \<Rightarrow> c | Some w \<Rightarrow> close w c);
          c = c\<lparr>scriptWatcher := None\<rparr>
      in if scriptName c = ''None'' then (emit ForceUpdate c, Returned)
         else
           let c = emit (SetState True None) (c\<lparr>refresing := True\<rparr>)
           in (emit Call_refreshDecorators c, AwaitDecorators))"

text \<open>
  A task goes on from its \<^verbatim>\<open>await\<close> with the value the promise settled with. A
  rejected promise throws at the \<^verbatim>\<open>await\<close> and ends the call. The loop runs its body,
  \<^verbatim>\<open>Tools.Wait(500)\<close>, when the file does not exist.
\<close>

fun resume :: "path_module \<Rightarrow> pc \<Rightarrow> resumed \<Rightarrow> inspector \<Rightarrow> inspector \<times> pc" where
  "resume P AwaitDecorators Resolved c = afterDecorators P c"
| "resume P AwaitDecorators (Rejected e) c = (c, Threw e)"
| "resume P (AwaitPathExists jsPath) (ResolvedBool exists) c =
     (if \<not> exists then (emit (Wait 500) c, AwaitWait jsPath) else afterLoop jsPath c)"
| "resume P (AwaitPathExists jsPath) (Rejected e) c = (c, Threw e)"
| "resume P (AwaitWait jsPath) Resolved c = loopCondition jsPath c"
| "resume P (AwaitInspectorValues jsPath) (ResolvedValues v) c =
     (let inspectorValues = (case v of None \<Rightarrow> [] | Some vs \<Rightarrow> vs)
      in (emit (SetState False (Some inspectorValues))
            (c\<lparr>refresing := False, inspectorValues := inspectorValues\<rparr>), Returned))"
| "resume P (AwaitInspectorValues jsPath) (Rejected e) c = (c, Threw e)"
| "resume P p r c = (c, p)"

text \<open>
  \<^verbatim>\<open>componentWillUnmount\<close>. Modelled from the spec: \<^verbatim>\<open>isMounted\<close> is a field that
  \<^verbatim>\<open>AbstractInspector\<close> keeps (its file is not among the sources); unmounting the
  component, through \<^verbatim>\<open>super.componentWillUnmount\<close>, clears it.
\<close>

definition componentWillUnmount :: "inspector \<Rightarrow> inspector" where
  "componentWillUnmount c =
     (let c = c\<lparr>isMounted := False\<rparr>
      in case scriptWatcher c of None \<Rightarrow> c | Some w \<Rightarrow> close w c)"

text \<open>
  What happens to the inspector, one event at a time: a call of
  \<^verbatim>\<open>_updateScriptVisibleProperties\<close> (from \<^verbatim>\<open>refreshAvailableScripts\<close>, that is from
  \<^verbatim>\<open>componentDidMount\<close> or from the scripts list asking for its items); the promise a
  task awaits settles; a file watcher reports an event (its callback calls the method on
  \<^verbatim>\<open>change\<close>; a closed watcher reports nothing); the user picks a script in the list,
  which is bound to the name in the metadata and whose \<^verbatim>\<open>onChange\<close> calls the method;
  the component unmounts.
\<close>

datatype event =
    Refresh
  | Resume nat resumed
  | Changed ref string
  | SelectScript string
  | Unmount

definition spawn :: "inspector \<Rightarrow> inspector" where
  "spawn c = (let (c, p) = updateScriptVisibleProperties c in c\<lparr>tasks := tasks c @ [p]\<rparr>)"

fun step :: "path_module \<Rightarrow> inspector \<Rightarrow> event \<Rightarrow> inspector" where
  "step P c Refresh = spawn c"
| "step P c (Resume i r) =
     (if i < length (tasks c)
      then let (c, p) = resume P (tasks c ! i) r c in c\<lparr>tasks := (tasks c)[i := p]\<rparr>
      else c)"
| "step P c (Changed w ev) =
     (if w \<in> fst ` set (openWatchers c) \<and> ev = ''change'' then spawn c else c)"
| "step P c (SelectScript script) = spawn (c\<lparr>scriptName := script\<rparr>)"
| "step P c Unmount = componentWillUnmount c"

definition run :: "path_module \<Rightarrow> inspector \<Rightarrow> event list \<Rightarrow> inspector" where
  "run P c evs = foldl (step P) c evs"

text \<open>A mounted inspector of an object whose script is \<^verbatim>\<open>src/player.ts\<close>.\<close>

definition mounted_inspector :: inspector where
  "mounted_inspector =
     \<lparr>isMounted = True, scriptWatcher = None, scriptName = ''src/player.ts'', refresing = False,
      inspectorValues = [], DirPath = Some ''/ws'', openWatchers = [], nextWatcher = 0,
      effects = [], tasks = []\<rparr>"

subsection \<open>Rendering the exported values\<close>
























text \<open>
  An environment to run the method in: the application lives in \<^verbatim>\<open>/app\<close>, which holds
  the decorators file; the stand-in compiler marks what it was given.
\<close>

definition demo_environment :: environment where
  "demo_environment =
     \<lparr>appPath = ''/app'',
      files = [''/app/assets/scripts/decorators.ts'' \<mapsto> ''export function visibleInInspector() {}''],
      transpile = (\<lambda>source options. ''/* transpiled */ '' @ source)\<rparr>"

section \<open>The rendering inspector\<close>











section \<open>Properties of the string operations\<close>

lemma replace_prefix: "prefix pat s \<Longrightarrow> replace s pat [] = drop (length pat) s"
  by (cases s) auto

section \<open>Properties of the move handler\<close>

lemma moveTexture_other: "t \<noteq> tex \<Longrightarrow> moveTexture P dir from to h tex t = h t"
  by (simp add: moveTexture_def Let_def)

lemma moveTexture_no_match:
  "join P [dir, name (h t)] \<noteq> from \<Longrightarrow> moveTexture P dir from to h tex t = h t"
  by (auto simp: moveTexture_def Let_def)

lemma moveTexture_tclass: "tclass (moveTexture P dir from to h tex t) = tclass (h t)"
  by (simp add: moveTexture_def Let_def)

lemma moveTexture_renamed:
  "name (h t) = replace to (join P [dir, ''/'']) [] \<Longrightarrow>
   name (moveTexture P dir from to h tex t) = replace to (join P [dir, ''/'']) []"
  by (simp add: moveTexture_def Let_def)

lemma moveTexture_match:
  "join P [dir, name (h tex)] = from \<Longrightarrow>
   name (moveTexture P dir from to h tex tex) = replace to (join P [dir, ''/'']) []"
  by (simp add: moveTexture_def Let_def)

lemma foldl_moveTexture_frame:
  "t \<notin> set texs \<or> join P [dir, name (h t)] \<noteq> from \<Longrightarrow>
   foldl (moveTexture P dir from to) h texs t = h t"
proof (induction texs arbitrary: h)
  case Nil
  show ?case by simp
next
  case (Cons x xs)
  have same: "moveTexture P dir from to h x t = h t"
    using Cons.prems by (auto simp: moveTexture_other moveTexture_no_match)
  have "t \<notin> set xs \<or> join P [dir, name (moveTexture P dir from to h x t)] \<noteq> from"
    using Cons.prems same by auto
  from Cons.IH [of "moveTexture P dir from to h x", OF this] same show ?case by simp
qed

lemma foldl_moveTexture_tclass:
  "tclass (foldl (moveTexture P dir from to) h texs t) = tclass (h t)"
  by (induction texs arbitrary: h) (simp_all add: moveTexture_tclass)

lemma foldl_moveTexture_renamed:
  "name (h t) = replace to (join P [dir, ''/'']) [] \<Longrightarrow>
   name (foldl (moveTexture P dir from to) h texs t) = replace to (join P [dir, ''/'']) []"
  by (induction texs arbitrary: h) (simp_all add: moveTexture_renamed)

lemma foldl_moveTexture_match:
  "t \<in> set texs \<Longrightarrow> join P [dir, name (h t)] = from \<Longrightarrow>
   name (foldl (moveTexture P dir from to) h texs t) = replace to (join P [dir, ''/'']) []"
proof (induction texs arbitrary: h)
  case Nil
  then show ?case by simp
next
  case (Cons x xs)
  show ?case
  proof (cases "x = t")
    case True
    have "name (moveTexture P dir from to h x t) = replace to (join P [dir, ''/'']) []"
      using True Cons.prems(2) by (simp add: moveTexture_match)
    then show ?thesis by (simp add: foldl_moveTexture_renamed)
  next
    case False
    then have "t \<in> set xs" and "moveTexture P dir from to h x t = h t"
      using Cons.prems(1) by (auto simp: moveTexture_other)
    then show ?thesis using Cons.IH [of "moveTexture P dir from to h x"] Cons.prems(2)
      by simp
  qed
qed

lemma posix_join_assets_sep: "join posix [''/proj/assets'', ''/''] = ''/proj/assets/''"
  by (simp add: posix_def posix_join_def posix_normalize_def)

lemma posix_join_intro:
  "join posix [''/proj/assets'', ''videos/intro.mp4''] = ''/proj/assets/videos/intro.mp4''"
  by (simp add: posix_def posix_join_def posix_normalize_def)

lemma posix_join_outro:
  "join posix [''/proj/assets'', ''videos/outro.webm''] = ''/proj/assets/videos/outro.webm''"
  by (simp add: posix_def posix_join_def posix_normalize_def)

lemma posix_join_clips:
  "join posix [''/proj/assets'', ''clips/intro.mp4''] = ''/proj/assets/clips/intro.mp4''"
  by (simp add: posix_def posix_join_def posix_normalize_def)

lemma find_video_iff:
  "(case find Q xs of Some t \<Rightarrow> True | None \<Rightarrow> False) = (\<exists>t \<in> set xs. Q t)"
  by (induction xs) auto

text \<open>
  C1. With a scene loaded, every video texture of the scene whose name, joined onto the
  assets directory, is \<open>from\<close> ends with the name \<open>to\<close> less the assets directory and its
  separator (\<open>to\<close> being a path under the assets directory): the prefix followed by the
  new name is \<open>to\<close>, the asset's new place.
\<close>

theorem moveFile_renames_matching:
  assumes "scene ed = Some sc"
    and "tex \<in> set (textures sc)"
    and "tclass (store ed tex) = VideoTexture"
    and "join P [assetsDirectory ed, name (store ed tex)] = from"
    and "prefix (join P [assetsDirectory ed, ''/'']) to"
  shows "\<exists>ed'. moveFile P ed from to = Inr ed' \<and>
           name (store ed' tex) = drop (length (join P [assetsDirectory ed, ''/''])) to \<and>
           join P [assetsDirectory ed, ''/''] @ name (store ed' tex) = to"
proof -
  let ?videos = "filter (\<lambda>t. tclass (store ed t) = VideoTexture) (textures sc)"
  let ?h = "foldl (moveTexture P (assetsDirectory ed) from to) (store ed) ?videos"
  have run: "moveFile P ed from to = Inr (ed\<lparr>store := ?h\<rparr>)"
    using assms(1) by (simp add: moveFile_def)
  have "tex \<in> set ?videos"
    using assms(2,3) by simp
  then have "name (?h tex) = replace to (join P [assetsDirectory ed, ''/'']) []"
    using assms(4) by (rule foldl_moveTexture_match)
  then have new: "name (?h tex) = drop (length (join P [assetsDirectory ed, ''/''])) to"
    using assms(5) by (simp add: replace_prefix)
  have "join P [assetsDirectory ed, ''/''] @ name (?h tex) = to"
    using assms(5) new by (auto simp: prefix_def)
  with run new show ?thesis by simp
qed

theorem moveFile_renames_matching_witness:
  "\<exists>ed'. moveFile posix demo_editor ''/proj/assets/videos/intro.mp4''
            ''/proj/assets/clips/intro.mp4'' = Inr ed' \<and>
         name (store ed' 0) = ''clips/intro.mp4''"
  using moveFile_renames_matching [of demo_editor "\<lparr>textures = [0, 1, 2, 0]\<rparr>" 0 posix
      "''/proj/assets/videos/intro.mp4''" "''/proj/assets/clips/intro.mp4''"]
  by (simp add: demo_editor_def demo_store_def posix_join_assets_sep posix_join_intro)

text \<open>
  C4. With a scene loaded, \<open>isFileUsed\<close> on a path under the assets directory answers
  true exactly when some texture of the scene is a video texture named by the path less
  the assets directory and its separator, and it leaves the editor, its scene and its
  textures as they were.
\<close>

theorem isFileUsed_iff_video_named:
  assumes "scene ed = Some sc"
    and "prefix (join P [assetsDirectory ed, ''/'']) path"
  shows "isFileUsed P ed path =
           Inr ((\<exists>t \<in> set (textures sc). tclass (store ed t) = VideoTexture \<and>
                   name (store ed t) = drop (length (join P [assetsDirectory ed, ''/''])) path),
                ed)"
  using assms by (simp add: isFileUsed_def Let_def find_video_iff replace_prefix)

theorem isFileUsed_iff_video_named_witness:
  "isFileUsed posix demo_editor ''/proj/assets/videos/outro.webm'' = Inr (True, demo_editor) \<and>
   isFileUsed posix demo_editor ''/proj/assets/videos/other.mp4'' = Inr (False, demo_editor)"
  using isFileUsed_iff_video_named [of demo_editor "\<lparr>textures = [0, 1, 2, 0]\<rparr>" posix
      "''/proj/assets/videos/outro.webm''"]
    isFileUsed_iff_video_named [of demo_editor "\<lparr>textures = [0, 1, 2, 0]\<rparr>" posix
      "''/proj/assets/videos/other.mp4''"]
  by (simp add: demo_editor_def demo_store_def posix_join_assets_sep)

text \<open>
  C5. \<open>moveFile\<close> changes names of matching video textures only: a texture that is not a
  video texture, or whose name joined onto the assets directory is not \<open>from\<close>, is the
  object it was; no texture changes its class; the scene, with its list of textures, and
  the assets directory are the ones before the call.
\<close>

theorem moveFile_frame:
  assumes "moveFile P ed from to = Inr ed'"
  shows "scene ed' = scene ed \<and> assetsDirectory ed' = assetsDirectory ed \<and>
         (\<forall>t. tclass (store ed t) \<noteq> VideoTexture \<or>
                join P [assetsDirectory ed, name (store ed t)] \<noteq> from \<longrightarrow>
              store ed' t = store ed t) \<and>
         (\<forall>t. tclass (store ed' t) = tclass (store ed t))"
proof (cases "scene ed")
  case None
  with assms show ?thesis by (simp add: moveFile_def)
next
  case (Some sc)
  let ?videos = "filter (\<lambda>t. tclass (store ed t) = VideoTexture) (textures sc)"
  let ?h = "foldl (moveTexture P (assetsDirectory ed) from to) (store ed) ?videos"
  have ed': "ed' = ed\<lparr>store := ?h\<rparr>"
    using assms Some by (simp add: moveFile_def)
  have frame: "?h t = store ed t"
    if "tclass (store ed t) \<noteq> VideoTexture \<or>
        join P [assetsDirectory ed, name (store ed t)] \<noteq> from" for t
  proof -
    from that have "t \<notin> set ?videos \<or> join P [assetsDirectory ed, name (store ed t)] \<noteq> from"
      by auto
    then show ?thesis by (rule foldl_moveTexture_frame)
  qed
  have "tclass (?h t) = tclass (store ed t)" for t
    by (rule foldl_moveTexture_tclass)
  with frame ed' show ?thesis by simp
qed

theorem moveFile_frame_witness:
  "\<exists>ed'. moveFile posix demo_editor ''/proj/assets/videos/intro.mp4''
            ''/proj/assets/clips/intro.mp4'' = Inr ed' \<and>
         scene ed' = scene demo_editor \<and>
         store ed' 1 = store demo_editor 1 \<and> store ed' 2 = store demo_editor 2"
proof -
  obtain ed' where run: "moveFile posix demo_editor ''/proj/assets/videos/intro.mp4''
      ''/proj/assets/clips/intro.mp4'' = Inr ed'"
    by (simp add: moveFile_def demo_editor_def)
  have "store ed' 1 = store demo_editor 1" "store ed' 2 = store demo_editor 2"
    "scene ed' = scene demo_editor"
    using moveFile_frame [OF run]
    by (simp_all add: demo_editor_def demo_store_def posix_join_outro)
  with run show ?thesis by blast
qed

text \<open>
  C9. Both handlers need a loaded scene: with the scene null each of them fails with a
  TypeError and returns no result; with a scene loaded each of them returns.
\<close>

theorem handlers_presuppose_scene:
  "(scene ed = None \<longrightarrow>
      isFileUsed P ed path = Inl TypeError \<and> moveFile P ed from to = Inl TypeError) \<and>
   (scene ed \<noteq> None \<longrightarrow>
      (\<exists>b ed'. isFileUsed P ed path = Inr (b, ed')) \<and>
      (\<exists>ed'. moveFile P ed from to = Inr ed'))"
  by (cases "scene ed") (simp_all add: isFileUsed_def moveFile_def Let_def)

theorem handlers_presuppose_scene_witness:
  "isFileUsed posix no_scene_editor ''/proj/assets/videos/intro.mp4'' = Inl TypeError \<and>
   moveFile posix no_scene_editor ''/proj/assets/videos/intro.mp4''
     ''/proj/assets/clips/intro.mp4'' = Inl TypeError \<and>
   (\<exists>b ed'. isFileUsed posix demo_editor ''/proj/assets/videos/intro.mp4'' = Inr (b, ed')) \<and>
   (\<exists>ed'. moveFile posix demo_editor ''/proj/assets/videos/intro.mp4''
      ''/proj/assets/clips/intro.mp4'' = Inr ed')"
  using handlers_presuppose_scene [of no_scene_editor posix "''/proj/assets/videos/intro.mp4''"
      "''/proj/assets/videos/intro.mp4''" "''/proj/assets/clips/intro.mp4''"]
    handlers_presuppose_scene [of demo_editor posix "''/proj/assets/videos/intro.mp4''"
      "''/proj/assets/videos/intro.mp4''" "''/proj/assets/clips/intro.mp4''"]
  by (simp add: no_scene_editor_def demo_editor_def)

section \<open>Properties of the label builder\<close>

lemma new_simps:
  "fst (new c n g) = nextRef g"
  "nextRef (snd (new c n g)) = Suc (nextRef g)"
  "rootControls (snd (new c n g)) = rootControls g"
  "objects (snd (new c n g)) r =
     (if r = nextRef g
      then Some \<lparr>cclass = c, cname = n, props = Map.empty, children = [], linkedMesh = None\<rparr>
      else objects g r)"
  by (simp_all add: new_def)

lemma assign_simps:
  "nextRef (assign r k v g) = nextRef g"
  "rootControls (assign r k v g) = rootControls g"
  "objects (assign r k v g) r' =
     (if r' = r then map_option (\<lambda>c. c\<lparr>props := (props c)(k \<mapsto> v)\<rparr>) (objects g r)
      else objects g r')"
  by (simp_all add: assign_def modify_def)

lemma addControl_simps:
  "nextRef (addControl r g) = nextRef g"
  "objects (addControl r g) = objects g"
  "rootControls (addControl r g) =
     (if r \<in> set (rootControls g) then rootControls g else rootControls g @ [r])"
  by (simp_all add: addControl_def)

lemma addChild_simps:
  "nextRef (addChild p r g) = nextRef g"
  "rootControls (addChild p r g) = rootControls g"
  "objects (addChild p r g) r' =
     (if r' = p
      then map_option (\<lambda>c. if r \<in> set (children c) then c
                            else c\<lparr>children := children c @ [r]\<rparr>) (objects g p)
      else objects g r')"
  by (simp_all add: addChild_def modify_def)

lemma linkWithMesh_simps:
  "nextRef (linkWithMesh r m g) = nextRef g"
  "rootControls (linkWithMesh r m g) = rootControls g"
  "objects (linkWithMesh r m g) r' =
     (if r' = r \<and> r \<in> set (rootControls g)
      then map_option (\<lambda>c. c\<lparr>linkedMesh := Some m\<rparr>) (objects g r)
      else objects g r')"
  by (simp_all add: linkWithMesh_def modify_def)

lemmas gui_ops = CreateLabel_def Let_def split_def new_simps assign_simps addControl_simps
  addChild_simps linkWithMesh_simps

lemma fresh_notin: "fresh_from g \<Longrightarrow> nextRef g \<notin> set (rootControls g)"
  by (auto simp: fresh_from_def list_all_iff)

lemma fresh_notin2: "fresh_from g \<Longrightarrow> Suc (Suc (nextRef g)) \<notin> set (rootControls g)"
  by (auto simp: fresh_from_def list_all_iff)

lemma CreateLabel_ref: "fst (CreateLabel gui mesh str lines width height) = nextRef gui"
  by (simp add: gui_ops)

lemma CreateLabel_root:
  "fresh_from gui \<Longrightarrow> rootControls (snd (CreateLabel gui mesh str lines width height)) =
     (if lines then rootControls gui @ [nextRef gui, Suc (Suc (nextRef gui))]
      else rootControls gui @ [nextRef gui])"
  by (simp add: gui_ops fresh_notin fresh_notin2)

lemma CreateLabel_label:
  "fresh_from gui \<Longrightarrow>
   \<exists>rect. objects (snd (CreateLabel gui mesh str lines width height)) (nextRef gui) = Some rect \<and>
     cclass rect = Rectangle \<and> cname rect = Some str \<and> children rect = [Suc (nextRef gui)] \<and>
     linkedMesh rect = (if lines then None else Some mesh)"
  by (simp add: gui_ops fresh_notin fresh_notin2)

lemma CreateLabel_text:
  "\<exists>tb. objects (snd (CreateLabel gui mesh str lines width height)) (Suc (nextRef gui)) = Some tb \<and>
     cclass tb = TextBlock \<and> props tb ''text'' = Some (Str str) \<and>
     props tb ''color'' = Some (Str ''white'') \<and> linkedMesh tb = None"
  by (simp add: gui_ops)

lemma CreateLabel_line:
  "fresh_from gui \<Longrightarrow>
   \<exists>ln. objects (snd (CreateLabel gui mesh str True width height)) (Suc (Suc (nextRef gui))) = Some ln \<and>
     cclass ln = Line \<and> props ln ''dash'' = Some (Nums [5, 10]) \<and>
     linkedMesh ln = Some mesh \<and> props ln ''connectedControl'' = Some (Ctl (nextRef gui))"
  by (simp add: gui_ops fresh_notin fresh_notin2)

lemma CreateLabel_no_line:
  "objects (snd (CreateLabel gui mesh str False width height)) (Suc (Suc (nextRef gui))) =
     objects gui (Suc (Suc (nextRef gui))) \<and>
   nextRef (snd (CreateLabel gui mesh str False width height)) = Suc (Suc (nextRef gui))"
  by (simp add: gui_ops)

lemma CreateLabel_others:
  "r < nextRef gui \<Longrightarrow>
   objects (snd (CreateLabel gui mesh str lines width height)) r = objects gui r"
  by (simp add: gui_ops)

text \<open>
  C7. \<open>CreateLabel\<close> returns a Rectangle named \<open>str\<close> that it has added to the gui and
  that contains a white TextBlock showing \<open>str\<close>. Without lines the rectangle is linked
  with the mesh and nothing else is created. With lines a dashed Line is created as well,
  added to the gui, linked with the mesh and connected to the rectangle, and the rectangle
  is not linked with the mesh.
\<close>

theorem CreateLabel_builds_label:
  assumes "fresh_from gui"
    and "CreateLabel gui mesh str lines width height = (label, gui')"
  shows "label \<in> set (rootControls gui') \<and> label \<notin> set (rootControls gui) \<and>
   (\<exists>rect text tb.
      objects gui' label = Some rect \<and> cclass rect = Rectangle \<and> cname rect = Some str \<and>
      children rect = [text] \<and>
      objects gui' text = Some tb \<and> cclass tb = TextBlock \<and>
      props tb ''text'' = Some (Str str) \<and> props tb ''color'' = Some (Str ''white'') \<and>
      (if lines
       then linkedMesh rect = None \<and>
            (\<exists>line ln. set (rootControls gui') = set (rootControls gui) \<union> {label, line} \<and>
               line \<notin> set (rootControls gui) \<and> line \<noteq> label \<and>
               objects gui' line = Some ln \<and> cclass ln = Line \<and>
               props ln ''dash'' = Some (Nums [5, 10]) \<and>
               linkedMesh ln = Some mesh \<and>
               props ln ''connectedControl'' = Some (Ctl label))
       else linkedMesh rect = Some mesh \<and>
            set (rootControls gui') = set (rootControls gui) \<union> {label} \<and>
            nextRef gui' = nextRef gui + 2))"
proof -
  have label: "label = nextRef gui"
    using assms(2) CreateLabel_ref [of gui mesh str lines width height] by simp
  have gui': "gui' = snd (CreateLabel gui mesh str lines width height)"
    using assms(2) by simp
  have root: "rootControls gui' =
     (if lines then rootControls gui @ [nextRef gui, Suc (Suc (nextRef gui))]
      else rootControls gui @ [nextRef gui])"
    unfolding gui' using assms(1) by (rule CreateLabel_root)
  obtain rect where rect: "objects gui' label = Some rect" "cclass rect = Rectangle"
      "cname rect = Some str" "children rect = [Suc (nextRef gui)]"
      "linkedMesh rect = (if lines then None else Some mesh)"
    unfolding gui' label using CreateLabel_label [OF assms(1)] by blast
  obtain tb where tb: "objects gui' (Suc (nextRef gui)) = Some tb" "cclass tb = TextBlock"
      "props tb ''text'' = Some (Str str)" "props tb ''color'' = Some (Str ''white'')"
    unfolding gui' using CreateLabel_text by blast
  have fresh: "nextRef gui \<notin> set (rootControls gui)"
      "Suc (Suc (nextRef gui)) \<notin> set (rootControls gui)"
    using assms(1) by (rule fresh_notin, rule fresh_notin2)
  have tail: "if lines
       then linkedMesh rect = None \<and>
            (\<exists>line ln. set (rootControls gui') = set (rootControls gui) \<union> {label, line} \<and>
               line \<notin> set (rootControls gui) \<and> line \<noteq> label \<and>
               objects gui' line = Some ln \<and> cclass ln = Line \<and>
               props ln ''dash'' = Some (Nums [5, 10]) \<and>
               linkedMesh ln = Some mesh \<and>
               props ln ''connectedControl'' = Some (Ctl label))
       else linkedMesh rect = Some mesh \<and>
            set (rootControls gui') = set (rootControls gui) \<union> {label} \<and>
            nextRef gui' = nextRef gui + 2"
  proof (cases lines)
    case True
    obtain ln where ln: "objects gui' (Suc (Suc (nextRef gui))) = Some ln" "cclass ln = Line"
        "props ln ''dash'' = Some (Nums [5, 10])" "linkedMesh ln = Some mesh"
        "props ln ''connectedControl'' = Some (Ctl (nextRef gui))"
      using CreateLabel_line [OF assms(1), of mesh str width height] True
      unfolding gui' by auto
    have "set (rootControls gui') = set (rootControls gui) \<union> {label, Suc (Suc (nextRef gui))}"
      using root True label by auto
    with ln fresh(2) label rect(5) True show ?thesis
      by (simp, intro exI [of _ "Suc (Suc (nextRef gui))"]) simp
  next
    case False
    have "nextRef gui' = nextRef gui + 2"
      unfolding gui' using False CreateLabel_no_line by simp
    with root rect(5) label False show ?thesis by simp
  qed
  have "label \<in> set (rootControls gui')" using root label by simp
  moreover have "label \<notin> set (rootControls gui)" using fresh(1) label by simp
  moreover have "objects gui' label = Some rect \<and> cclass rect = Rectangle \<and>
      cname rect = Some str \<and> children rect = [Suc (nextRef gui)] \<and>
      objects gui' (Suc (nextRef gui)) = Some tb \<and> cclass tb = TextBlock \<and>
      props tb ''text'' = Some (Str str) \<and> props tb ''color'' = Some (Str ''white'')"
    using rect tb by simp
  ultimately show ?thesis using tail
    by (intro conjI exI [of _ rect] exI [of _ "Suc (nextRef gui)"] exI [of _ tb]) simp_all
qed

theorem CreateLabel_builds_label_witness:
  "\<exists>label gui'. CreateLabel empty_gui 7 ''PBR'' True ''200px'' ''60px'' = (label, gui') \<and>
     label \<in> set (rootControls gui') \<and>
     (\<exists>rect. objects gui' label = Some rect \<and> cname rect = Some ''PBR'' \<and>
        linkedMesh rect = None)"
proof -
  obtain label gui' where run:
      "CreateLabel empty_gui 7 ''PBR'' True ''200px'' ''60px'' = (label, gui')"
    by (cases "CreateLabel empty_gui 7 ''PBR'' True ''200px'' ''60px''") blast
  have "fresh_from empty_gui" by (simp add: fresh_from_def empty_gui_def)
  from CreateLabel_builds_label [OF this run] run show ?thesis
    by (intro exI [of _ label] exI [of _ gui']) auto
qed

section \<open>Properties of the refresh of the visible properties\<close>

lemma run_Nil: "run P c [] = c"
  by (simp add: run_def)

lemma run_Cons: "run P c (e # es) = run P (step P c e) es"
  by (simp add: run_def)

lemma run_append: "run P c (es @ fs) = run P (run P c es) fs"
  by (simp add: run_def)

lemma poll_once:
  assumes "i < length (tasks c)" and "tasks c ! i = AwaitPathExists p" and "isMounted c"
  shows "run P c [Resume i (ResolvedBool False), Resume i Resolved] =
         c\<lparr>effects := effects c @ [Wait 500, PathExists p]\<rparr>"
proof -
  have "(tasks c)[i := AwaitPathExists p] = tasks c"
    using assms(1,2) by (simp add: list_update_same_conv)
  with assms show ?thesis
    by (simp add: run_Cons run_Nil emit_def loopCondition_def)
qed

lemma poll_many:
  assumes "i < length (tasks c)" and "tasks c ! i = AwaitPathExists p" and "isMounted c"
  shows "run P c (concat (replicate n [Resume i (ResolvedBool False), Resume i Resolved])) =
         c\<lparr>effects := effects c @ concat (replicate n [Wait 500, PathExists p])\<rparr>"
  using assms
proof (induction n arbitrary: c)
  case 0
  then show ?case by (simp add: run_Nil)
next
  case (Suc n)
  let ?c = "c\<lparr>effects := effects c @ [Wait 500, PathExists p]\<rparr>"
  have "run P c (concat (replicate (Suc n) [Resume i (ResolvedBool False), Resume i Resolved])) =
        run P (run P c [Resume i (ResolvedBool False), Resume i Resolved])
          (concat (replicate n [Resume i (ResolvedBool False), Resume i Resolved]))"
    by (simp add: run_Cons run_Nil)
  also have "\<dots> = run P ?c (concat (replicate n [Resume i (ResolvedBool False), Resume i Resolved]))"
    using Suc.prems by (simp only: poll_once)
  also have "\<dots> = ?c\<lparr>effects := effects ?c @ concat (replicate n [Wait 500, PathExists p])\<rparr>"
    using Suc.prems by (intro Suc.IH) simp_all
  finally show ?case by simp
qed

lemma refresh_start:
  assumes "isMounted c" and "scriptName c \<noteq> ''None''"
    and "DirPath c = Some dir"
    and "lastIndexOf (scriptName c) (extname P (scriptName c)) = int k"
  shows "run P c [Refresh, Resume (length (tasks c)) Resolved] =
         c\<lparr>scriptWatcher := None, refresing := True,
           openWatchers := (case scriptWatcher c of None \<Rightarrow> openWatchers c
              | Some w \<Rightarrow> filter (\<lambda>(w', p). w' \<noteq> w) (openWatchers c)),
           effects := effects c @ (case scriptWatcher c of None \<Rightarrow> [] | Some w \<Rightarrow> [Close w]) @
              [SetState True None, Call_refreshDecorators,
               PathExists (join P [dir, ''build'', normalize P (take k (scriptName c) @ ''.js'')])],
           tasks := tasks c @ [AwaitPathExists
               (join P [dir, ''build'', normalize P (take k (scriptName c) @ ''.js'')])]\<rparr>"
  using assms
  by (cases "scriptWatcher c")
     (simp_all add: run_Cons run_Nil spawn_def updateScriptVisibleProperties_def emit_def
        close_def afterDecorators_def loopCondition_def Let_def)

lemma refresh_finish:
  assumes "i < length (tasks c)" and "tasks c ! i = AwaitPathExists p" and "isMounted c"
  shows "run P c [Resume i (ResolvedBool True), Resume i (ResolvedValues v)] =
         c\<lparr>scriptWatcher := Some (nextWatcher c), refresing := False,
           inspectorValues := (case v of None \<Rightarrow> [] | Some vs \<Rightarrow> vs),
           openWatchers := openWatchers c @ [(nextWatcher c, p)],
           nextWatcher := Suc (nextWatcher c),
           effects := effects c @ [Watch p (nextWatcher c), GetInspectorValues p,
              SetState False (Some (case v of None \<Rightarrow> [] | Some vs \<Rightarrow> vs))],
           tasks := (tasks c)[i := Returned]\<rparr>"
  using assms
  by (simp add: run_Cons run_Nil afterLoop_def watch_def callSandbox_def emit_def Let_def)

lemma player_extension: "lastIndexOf ''src/player.ts'' (extname posix ''src/player.ts'') = 10"
  by (simp add: posix_def posix_extname_def lastIndexOf_def upt_rec)

lemma enemy_extension: "lastIndexOf ''src/enemy.ts'' (extname posix ''src/enemy.ts'') = 9"
  by (simp add: posix_def posix_extname_def lastIndexOf_def upt_rec)

lemma player_jsPath:
  "join posix [''/ws'', ''build'', normalize posix (''src/player'' @ ''.js'')] =
     ''/ws/build/src/player.js''"
  by (simp add: posix_def posix_join_def posix_normalize_def)

lemma enemy_jsPath:
  "join posix [''/ws'', ''build'', normalize posix (''src/enemy'' @ ''.js'')] =
     ''/ws/build/src/enemy.js''"
  by (simp add: posix_def posix_join_def posix_normalize_def)

lemma player_afterDecorators:
  "scriptName c = ''src/player.ts'' \<Longrightarrow> DirPath c = Some ''/ws'' \<Longrightarrow>
   afterDecorators posix c =
     (if scriptWatcher c = None then loopCondition ''/ws/build/src/player.js'' c
      else callSandbox ''/ws/build/src/player.js'' c)"
  using player_jsPath by (simp add: afterDecorators_def player_extension Let_def)

lemma enemy_afterDecorators:
  "scriptName c = ''src/enemy.ts'' \<Longrightarrow> DirPath c = Some ''/ws'' \<Longrightarrow>
   afterDecorators posix c =
     (if scriptWatcher c = None then loopCondition ''/ws/build/src/enemy.js'' c
      else callSandbox ''/ws/build/src/enemy.js'' c)"
  using enemy_jsPath by (simp add: afterDecorators_def enemy_extension Let_def)

lemmas task_steps = run_Cons run_Nil spawn_def updateScriptVisibleProperties_def emit_def
  close_def watch_def callSandbox_def afterLoop_def loopCondition_def
  componentWillUnmount_def player_afterDecorators enemy_afterDecorators Let_def

text \<open>
  C10. Two refreshes in flight, as when the scripts list asks for its items while the
  refresh of \<^verbatim>\<open>componentDidMount\<close> still polls: both pass the guard of line 281 before
  either has a watcher, both see the file and install a watcher, and the second overwrites
  \<^verbatim>\<open>_scriptWatcher\<close>. Unmounting closes the second watcher only: the first one is open
  on an unmounted inspector.
\<close>

theorem overlapping_refreshes_leak_watcher:
  "run posix mounted_inspector
     [Refresh, Refresh, Resume 0 Resolved, Resume 1 Resolved,
      Resume 0 (ResolvedBool True), Resume 1 (ResolvedBool True), Unmount] =
   mounted_inspector
     \<lparr>isMounted := False, scriptWatcher := Some 1, refresing := True,
      openWatchers := [(0, ''/ws/build/src/player.js'')], nextWatcher := 2,
      effects :=
        [SetState True None, Call_refreshDecorators, SetState True None,
         Call_refreshDecorators, PathExists ''/ws/build/src/player.js'',
         PathExists ''/ws/build/src/player.js'',
         Watch ''/ws/build/src/player.js'' 0, GetInspectorValues ''/ws/build/src/player.js'',
         Watch ''/ws/build/src/player.js'' 1, GetInspectorValues ''/ws/build/src/player.js'',
         Close 1],
      tasks := [AwaitInspectorValues ''/ws/build/src/player.js'',
                AwaitInspectorValues ''/ws/build/src/player.js'']\<rparr>"
  by (simp add: mounted_inspector_def task_steps)

text \<open>
  The order of a refresh that no other call interferes with, whatever calls have come
  before it: on an inspector that is mounted and has a script attached it refreshes the
  decorators, polls for the compiled file (the script's name with \<^verbatim>\<open>.js\<close> for its
  extension, under the build directory of the workspace) and waits 500 ms after each poll
  that misses it; when the file is there it installs a watcher on it, whose
  \<^verbatim>\<open>change\<close> events, and no others, start the same refresh; only then it asks the sandbox
  for the values, which it stores in the state.
\<close>

lemma refresh_alone_order:
  assumes "isMounted c" and "scriptName c \<noteq> ''None''"
    and "DirPath c = Some dir"
    and "lastIndexOf (scriptName c) (extname P (scriptName c)) = int k"
    and "jsPath = join P [dir, ''build'', normalize P (take k (scriptName c) @ ''.js'')]"
    and "values = (case v of None \<Rightarrow> [] | Some vs \<Rightarrow> vs)"
    and "i = length (tasks c)"
    and "c' = run P c ([Refresh, Resume i Resolved] @
                concat (replicate n [Resume i (ResolvedBool False), Resume i Resolved]) @
                [Resume i (ResolvedBool True), Resume i (ResolvedValues v)])"
  shows "effects c' =
           effects c @ (case scriptWatcher c of None \<Rightarrow> [] | Some w \<Rightarrow> [Close w]) @
           [SetState True None, Call_refreshDecorators, PathExists jsPath] @
           concat (replicate n [Wait 500, PathExists jsPath]) @
           [Watch jsPath (nextWatcher c), GetInspectorValues jsPath,
            SetState False (Some values)] \<and>
         tasks c' = tasks c @ [Returned] \<and>
         scriptWatcher c' = Some (nextWatcher c) \<and>
         (nextWatcher c, jsPath) \<in> set (openWatchers c') \<and>
         inspectorValues c' = values \<and> \<not> refresing c' \<and>
         step P c' (Changed (nextWatcher c) ''change'') = step P c' Refresh \<and>
         (ev \<noteq> ''change'' \<longrightarrow> step P c' (Changed (nextWatcher c) ev) = c')"
proof -
  let ?polls = "concat (replicate n [Resume i (ResolvedBool False), Resume i Resolved])"
  define c1 where "c1 = run P c [Refresh, Resume i Resolved]"
  define c2 where "c2 = run P c1 ?polls"
  have c1: "c1 = c\<lparr>scriptWatcher := None, refresing := True,
           openWatchers := (case scriptWatcher c of None \<Rightarrow> openWatchers c
              | Some w \<Rightarrow> filter (\<lambda>(w', p). w' \<noteq> w) (openWatchers c)),
           effects := effects c @ (case scriptWatcher c of None \<Rightarrow> [] | Some w \<Rightarrow> [Close w]) @
              [SetState True None, Call_refreshDecorators, PathExists jsPath],
           tasks := tasks c @ [AwaitPathExists jsPath]\<rparr>"
    unfolding c1_def assms(5,7) using assms(1-4) by (rule refresh_start)
  have c1_task: "i < length (tasks c1)" "tasks c1 ! i = AwaitPathExists jsPath"
    and c1_mounted: "isMounted c1"
    using c1 assms(1,7) by simp_all
  have c2: "c2 = c1\<lparr>effects := effects c1 @ concat (replicate n [Wait 500, PathExists jsPath])\<rparr>"
    unfolding c2_def using c1_task c1_mounted by (rule poll_many)
  have c2_task: "i < length (tasks c2)" "tasks c2 ! i = AwaitPathExists jsPath"
    and c2_mounted: "isMounted c2"
    using c2 c1_task c1_mounted by simp_all
  have "c' = run P c2 [Resume i (ResolvedBool True), Resume i (ResolvedValues v)]"
    unfolding assms(8) c2_def c1_def by (simp only: run_append)
  then have c': "c' = c2\<lparr>scriptWatcher := Some (nextWatcher c2), refresing := False,
           inspectorValues := values,
           openWatchers := openWatchers c2 @ [(nextWatcher c2, jsPath)],
           nextWatcher := Suc (nextWatcher c2),
           effects := effects c2 @ [Watch jsPath (nextWatcher c2), GetInspectorValues jsPath,
              SetState False (Some values)],
           tasks := (tasks c2)[i := Returned]\<rparr>"
    unfolding assms(6) using refresh_finish [OF c2_task c2_mounted] by simp
  have nxt: "nextWatcher c2 = nextWatcher c"
    using c2 c1 by simp
  have eff: "effects c' =
           effects c @ (case scriptWatcher c of None \<Rightarrow> [] | Some w \<Rightarrow> [Close w]) @
           [SetState True None, Call_refreshDecorators, PathExists jsPath] @
           concat (replicate n [Wait 500, PathExists jsPath]) @
           [Watch jsPath (nextWatcher c), GetInspectorValues jsPath,
            SetState False (Some values)]"
    using c' c2 c1 by simp
  have open_w: "(nextWatcher c, jsPath) \<in> set (openWatchers c')"
    using c' nxt by simp
  then have "nextWatcher c \<in> fst ` set (openWatchers c')"
    by force
  then have changed: "step P c' (Changed (nextWatcher c) ''change'') = step P c' Refresh"
      "ev \<noteq> ''change'' \<longrightarrow> step P c' (Changed (nextWatcher c) ev) = c'"
    by simp_all
  have "tasks c' = tasks c @ [Returned]"
    using c' c2 c1 assms(7) by simp
  moreover have "scriptWatcher c' = Some (nextWatcher c)"
      "inspectorValues c' = values" "\<not> refresing c'"
    using c' nxt by simp_all
  ultimately show ?thesis using eff open_w changed by simp
qed

lemma refresh_alone_order_example:
  "effects (run posix mounted_inspector
      [Refresh, Resume 0 Resolved, Resume 0 (ResolvedBool False), Resume 0 Resolved,
       Resume 0 (ResolvedBool True), Resume 0 (ResolvedValues None)]) =
     [SetState True None, Call_refreshDecorators, PathExists ''/ws/build/src/player.js'',
      Wait 500, PathExists ''/ws/build/src/player.js'',
      Watch ''/ws/build/src/player.js'' 0, GetInspectorValues ''/ws/build/src/player.js'',
      SetState False (Some [])]"
proof -
  have name: "scriptName mounted_inspector = ''src/player.ts''"
    by (simp add: mounted_inspector_def)
  have "lastIndexOf (scriptName mounted_inspector)
          (extname posix (scriptName mounted_inspector)) = int 10"
    unfolding name using player_extension by simp
  from refresh_alone_order [of mounted_inspector "''/ws''" posix 10
      "''/ws/build/src/player.js''" "[]" None 0 _ 1, OF _ _ _ this _ _ _ refl]
  show ?thesis
    using player_jsPath by (simp add: mounted_inspector_def)
qed

text \<open>
  C3. The order the claim states is the one of a refresh that runs alone; a refresh that
  starts while another is in flight breaks it. The user picks \<^verbatim>\<open>src/enemy.ts\<close> while
  the refresh for \<^verbatim>\<open>src/player.ts\<close> polls: the first call then sees its file and
  installs its watcher, and the second call, resumed after the decorators, finds that
  watcher at the guard of line 281 and asks the sandbox for \<^verbatim>\<open>enemy.js\<close> at once. No
  call waited for that file and no watcher is on it: the inspector ends with
  \<^verbatim>\<open>src/enemy.ts\<close> attached and its only watcher on \<^verbatim>\<open>player.js\<close>. Two overlapping
  refreshes of the same script skip the wait and the watcher in the same way.
\<close>

theorem overlapping_refresh_skips_wait_and_watch:
  "run posix mounted_inspector
      [Refresh, Resume 0 Resolved, SelectScript ''src/enemy.ts'',
       Resume 0 (ResolvedBool True), Resume 1 Resolved,
       Resume 0 (ResolvedValues None), Resume 1 (ResolvedValues None)] =
   mounted_inspector
     \<lparr>scriptWatcher := Some 0, scriptName := ''src/enemy.ts'',
      openWatchers := [(0, ''/ws/build/src/player.js'')], nextWatcher := 1,
      effects :=
        [SetState True None, Call_refreshDecorators, PathExists ''/ws/build/src/player.js'',
         SetState True None, Call_refreshDecorators,
         Watch ''/ws/build/src/player.js'' 0, GetInspectorValues ''/ws/build/src/player.js'',
         GetInspectorValues ''/ws/build/src/enemy.js'',
         SetState False (Some []), SetState False (Some [])],
      tasks := [Returned, Returned]\<rparr> \<and>
   effects (run posix mounted_inspector
      [Refresh, Refresh, Resume 0 Resolved,
       Resume 0 (ResolvedBool True), Resume 1 Resolved]) =
     [SetState True None, Call_refreshDecorators, SetState True None, Call_refreshDecorators,
      PathExists ''/ws/build/src/player.js'',
      Watch ''/ws/build/src/player.js'' 0, GetInspectorValues ''/ws/build/src/player.js'',
      GetInspectorValues ''/ws/build/src/player.js'']"
  by (simp add: mounted_inspector_def task_steps)

section \<open>Properties of the refresh of the decorators\<close>

text \<open>
  C8. Every run of the refresh of the decorators reads the one file
  \<^verbatim>\<open>assets/scripts/decorators.ts\<close> under the application path, whatever the inspector
  shows; when the file is read, its content is transpiled with the module kind None, the
  target ES5 and the experimental decorators, and the result is executed in the sandbox
  under the name \<^verbatim>\<open>__editor__decorators__.js\<close>.
\<close>

theorem refreshDecorators_fixed_file:
  "refreshDecorators P env c = refreshDecorators P env c' \<and>
   hd (snd (refreshDecorators P env c)) =
     ReadFile (join P [appPath env, ''assets'', ''scripts'', ''decorators.ts'']) ''utf-8'' \<and>
   (files env (join P [appPath env, ''assets'', ''scripts'', ''decorators.ts'']) = Some decorators
    \<longrightarrow> refreshDecorators P env c =
      (Inr (),
       [ReadFile (join P [appPath env, ''assets'', ''scripts'', ''decorators.ts'']) ''utf-8'',
        ExecuteCode
          (transpile env decorators
             \<lparr>opt_module = ModuleKind_None, opt_target = ES5, experimentalDecorators = True\<rparr>)
          ''__editor__decorators__.js'']))"
  by (simp add: refreshDecorators_def Let_def split: option.splits)

lemma posix_join_decorators:
  "join posix [''/app'', ''assets'', ''scripts'', ''decorators.ts''] =
     ''/app/assets/scripts/decorators.ts''"
  by (simp add: posix_def posix_join_def posix_normalize_def)

theorem refreshDecorators_fixed_file_witness:
  "refreshDecorators posix demo_environment mounted_inspector =
     (Inr (),
      [ReadFile ''/app/assets/scripts/decorators.ts'' ''utf-8'',
       ExecuteCode ''/* transpiled */ export function visibleInInspector() {}''
         ''__editor__decorators__.js''])"
  using refreshDecorators_fixed_file [of posix demo_environment mounted_inspector
      mounted_inspector "''export function visibleInInspector() {}''"]
  by (simp add: posix_join_decorators demo_environment_def)

section \<open>Properties of the rendering inspector\<close>



section \<open>Properties of the rendering of exported values\<close>















end
